theory Spec2Isabelle
  imports Complex_Main "HOL-Library.Word"
begin

unbundle bit_operations_syntax

text \<open>
  A model of the school attendance service (FastAPI handlers of app/main.py over the
  SQLAlchemy tables of app/models.py): the store is a record of the two tables, each
  handler is a function from the store and its inputs to a result or an error and the
  new store, and the clock, the client address and the random token are inputs.
\<close>

section \<open>Data model (app/models.py, app/schemas.py)\<close>

text \<open>
  A calendar date is its proleptic ordinal; a time of day is the tuple
  (hour, minute, second, microsecond) that Python's \<^verbatim>\<open>datetime.time\<close> compares
  lexicographically; \<^verbatim>\<open>datetime.now()\<close> is a naive local datetime.
\<close>

type_synonym date = int

record pytime =
  hour :: nat
  minute :: nat
  second :: nat
  microsecond :: nat

record datetime =
  dt_date :: date
  dt_time :: pytime

text \<open>\<^verbatim>\<open>time(h, m)\<close>: seconds and microseconds default to 0.\<close>

definition time :: "nat \<Rightarrow> nat \<Rightarrow> pytime" where
  "time h m = \<lparr>hour = h, minute = m, second = 0, microsecond = 0\<rparr>"

text \<open>\<^verbatim>\<open>a > b\<close> on naive times: tuple comparison.\<close>

definition time_gt :: "pytime \<Rightarrow> pytime \<Rightarrow> bool" where
  "time_gt a b =
     (hour a > hour b \<or> (hour a = hour b \<and>
       (minute a > minute b \<or> (minute a = minute b \<and>
         (second a > second b \<or> (second a = second b \<and>
           microsecond a > microsecond b))))))"

text \<open>
  The mapped columns of class \<^verbatim>\<open>User\<close> (models.py, lines 9-16): id, full_name, email,
  password, role. The module-level \<^verbatim>\<open>reset_token = Column(...)\<close> of line 7 stands
  outside the class body and is no column of the table.
\<close>

record User =
  id_user :: int
  full_name :: string
  email :: string
  password :: string
  role :: string

record Attendance =
  id_attendance :: int
  user_id :: int
  date :: date
  check_in :: datetime
  status :: string

text \<open>schemas.UserCreate: the body of a registration request.\<close>

record UserCreate =
  req_full_name :: string
  req_email :: string
  req_password :: string
  req_role :: string

text \<open>
  The store: the rows of both tables in insertion order and the two AUTO_INCREMENT
  counters of the primary keys.
\<close>

record db =
  users :: "User list"
  attendance :: "Attendance list"
  next_user_id :: int
  next_attendance_id :: int

datatype error =
    HTTPException nat string
  | AttributeError string
  | ValueError
  | IntegrityError
  | ZeroDivisionError

section \<open>Storage primitives\<close>

text \<open>\<^verbatim>\<open>query.filter(...).first()\<close>: the first row that satisfies the filter, or None.\<close>

definition first :: "('a \<Rightarrow> bool) \<Rightarrow> 'a list \<Rightarrow> 'a option" where
  "first P rows = find P rows"

text \<open>
  \<^verbatim>\<open>db.add(user); db.commit()\<close>. The column \<^verbatim>\<open>email\<close> is declared
  \<^verbatim>\<open>unique=True\<close>, so the commit of a duplicate email raises IntegrityError.
\<close>

definition add_user :: "db \<Rightarrow> string \<Rightarrow> string \<Rightarrow> string \<Rightarrow> string \<Rightarrow> error + db" where
  "add_user s fn em pw r =
     (if em \<in> set (map email (users s)) then Inl IntegrityError
      else Inr (s\<lparr>users := users s @
                    [\<lparr>id_user = next_user_id s, full_name = fn, email = em,
                      password = pw, role = r\<rparr>],
                  next_user_id := next_user_id s + 1\<rparr>))"

text \<open>
  \<^verbatim>\<open>db.add(attendance); db.commit()\<close>. Class \<^verbatim>\<open>Attendance\<close> (models.py, lines 19-28)
  declares a primary key and a foreign key and no other constraint, so the insert
  always succeeds.
\<close>

definition add_attendance :: "db \<Rightarrow> int \<Rightarrow> date \<Rightarrow> datetime \<Rightarrow> string \<Rightarrow> db" where
  "add_attendance s uid d ci st =
     s\<lparr>attendance := attendance s @
          [\<lparr>id_attendance = next_attendance_id s, user_id = uid, date = d,
            check_in = ci, status = st\<rparr>],
       next_attendance_id := next_attendance_id s + 1\<rparr>"

section \<open>Registration and login (app/main.py, lines 61-133)\<close>

text \<open>
  \<^verbatim>\<open>str.lower()\<close> on the ASCII letters. Strings are byte strings here; no string
  with a character outside ASCII lowers to \<^verbatim>\<open>admin\<close> (U+0130 lowers to i followed
  by a combining dot), so the comparison with \<^verbatim>\<open>"admin"\<close> is decided by the ASCII
  letters alone.
\<close>

definition lower_char :: "char \<Rightarrow> char" where
  "lower_char c =
     (if (65::nat) \<le> of_char c \<and> (of_char c :: nat) \<le> 90
      then char_of ((of_char c :: nat) + 32) else c)"

definition lower :: "string \<Rightarrow> string" where
  "lower s = map lower_char s"

text \<open>
  \<^verbatim>\<open>hash_password\<close>, \<^verbatim>\<open>verify_password\<close> and \<^verbatim>\<open>create_access_token\<close> come from
  app/auth.py, which is not among the sources: they are parameters \<open>hp\<close>, \<open>vp\<close>
  and \<open>cat\<close> of the operations that call them.
\<close>

definition create_default_admin :: "(string \<Rightarrow> string) \<Rightarrow> db \<Rightarrow> error + db" where
  "create_default_admin hp s =
     (case first (\<lambda>u. role u = ''admin'') (users s) of
        Some _ \<Rightarrow> Inr s
      | None \<Rightarrow> add_user s ''System Admin'' ''admin@school.com'' (hp ''Admin@123'') ''admin'')"

definition register :: "(string \<Rightarrow> string) \<Rightarrow> db \<Rightarrow> UserCreate \<Rightarrow> (error + string) \<times> db" where
  "register hp s user =
     (if lower (req_role user) = ''admin''
      then (Inl (HTTPException 403 ''Admin registration not allowed''), s)
      else case first (\<lambda>u. email u = req_email user) (users s) of
        Some _ \<Rightarrow> (Inl (HTTPException 400 ''Email already registered''), s)
      | None \<Rightarrow>
          (case add_user s (req_full_name user) (req_email user)
                  (hp (req_password user)) ''staff'' of
             Inl e \<Rightarrow> (Inl e, s)
           | Inr s' \<Rightarrow> (Inr ''Staff registered successfully'', s')))"

text \<open>The response of a successful login: access_token, token_type, role.\<close>

definition login ::
  "(string \<Rightarrow> string \<Rightarrow> bool) \<Rightarrow> (string \<Rightarrow> string \<Rightarrow> string) \<Rightarrow> db \<Rightarrow> string \<Rightarrow> string
   \<Rightarrow> error + (string \<times> string \<times> string)" where
  "login vp cat s username pw =
     (case first (\<lambda>u. email u = username) (users s) of
        None \<Rightarrow> Inl (HTTPException 400 ''Invalid credentials'')
      | Some db_user \<Rightarrow>
          if \<not> vp pw (password db_user)
          then Inl (HTTPException 400 ''Invalid credentials'')
          else Inr (cat (email db_user) (role db_user), ''bearer'', role db_user))"

section \<open>Authentication dependency (app/main.py, lines 137-164)\<close>

text \<open>
  \<^verbatim>\<open>jwt.decode\<close> is external: the argument \<open>sub\<close> is the subject claim of the bearer
  token, \<open>None\<close> when decoding fails or the claim is missing.
\<close>

definition get_current_user :: "db \<Rightarrow> string option \<Rightarrow> error + User" where
  "get_current_user s sub =
     (case sub of
        None \<Rightarrow> Inl (HTTPException 401 ''Could not validate credentials'')
      | Some em \<Rightarrow>
          (case first (\<lambda>u. email u = em) (users s) of
             None \<Rightarrow> Inl (HTTPException 401 ''Could not validate credentials'')
           | Some u \<Rightarrow> Inr u))"

section \<open>Marking attendance (app/main.py, lines 176-228)\<close>

text \<open>
  \<^verbatim>\<open>request.client.host\<close> is a string and \<^verbatim>\<open>ipaddress.ip_address\<close> parses it, raising
  ValueError when it is no IPv4 or IPv6 literal. The outcome of the parse is the input.
\<close>

datatype address = IPv4Address "32 word" | IPv6Address "128 word"

datatype host = Literal address | NoLiteral

fun ip_address :: "host \<Rightarrow> error + address" where
  "ip_address (Literal a) = Inr a"
| "ip_address NoLiteral = Inl ValueError"

record IPv4Network =
  network_address :: "32 word"
  prefixlen :: nat

definition netmask :: "IPv4Network \<Rightarrow> 32 word" where
  "netmask n = NOT (mask (32 - prefixlen n))"

text \<open>
  \<^verbatim>\<open>addr in network\<close>: False when the versions differ, else
  \<^verbatim>\<open>addr._ip & netmask._ip == network_address._ip\<close>.
\<close>

fun in_network :: "address \<Rightarrow> IPv4Network \<Rightarrow> bool" where
  "in_network (IPv4Address a) n = (a AND netmask n = network_address n)"
| "in_network (IPv6Address a) n = False"

text \<open>\<^verbatim>\<open>ipaddress.ip_network("127.0.0.1/32")\<close>\<close>

definition allowed_network :: IPv4Network where
  "allowed_network = \<lparr>network_address = 0x7F000001, prefixlen = 32\<rparr>"

definition late_time :: pytime where
  "late_time = time 7 30"

definition close_time :: pytime where
  "close_time = time 8 0"

text \<open>
  Lines 183-216: the checks and the classification. They only read the store; the
  result is the error raised or the status to persist.
\<close>

definition mark_attendance_status :: "db \<Rightarrow> host \<Rightarrow> User \<Rightarrow> datetime \<Rightarrow> error + string" where
  "mark_attendance_status s client current_user now =
     (case ip_address client of
        Inl e \<Rightarrow> Inl e
      | Inr client_ip \<Rightarrow>
          if \<not> in_network client_ip allowed_network
          then Inl (HTTPException 403 ''Attendance allowed only on school network'')
          else if role current_user \<noteq> ''staff''
          then Inl (HTTPException 403 ''Only staff can mark attendance'')
          else
            (case first (\<lambda>a. user_id a = id_user current_user \<and> date a = dt_date now)
                    (attendance s) of
               Some _ \<Rightarrow> Inl (HTTPException 400 ''Already marked today'')
             | None \<Rightarrow>
                 if time_gt (dt_time now) close_time
                 then Inl (HTTPException 403 ''Attendance closed for today'')
                 else Inr (if time_gt (dt_time now) late_time then ''Late'' else ''Present'')))"

text \<open>Lines 218-228: the insert, the commit and the response (message, status).\<close>

definition mark_attendance ::
  "db \<Rightarrow> host \<Rightarrow> User \<Rightarrow> datetime \<Rightarrow> (error + (string \<times> string)) \<times> db" where
  "mark_attendance s client current_user now =
     (case mark_attendance_status s client current_user now of
        Inl e \<Rightarrow> (Inl e, s)
      | Inr st \<Rightarrow>
          (Inr (''Attendance marked'', st),
           add_attendance s (id_user current_user) (dt_date now) now st))"

section \<open>Reports (app/main.py, lines 232-253, 308-338)\<close>

text \<open>
  \<^verbatim>\<open>datetime.now().date()\<close> and \<^verbatim>\<open>date.today()\<close> read the clock: the date is the
  argument \<open>today\<close>. An absentee is listed as (id, full_name, email).
\<close>

definition get_absentees ::
  "db \<Rightarrow> User \<Rightarrow> date \<Rightarrow> error + (date \<times> (int \<times> string \<times> string) list)" where
  "get_absentees s current_user today =
     (if role current_user \<noteq> ''admin''
      then Inl (HTTPException 403 ''Admin access required'')
      else
        let staff_users = filter (\<lambda>u. role u = ''staff'') (users s);
            attended = filter (\<lambda>a. date a = today) (attendance s);
            attended_ids = map user_id attended;
            absentees = map (\<lambda>u. (id_user u, full_name u, email u))
                          (filter (\<lambda>u. id_user u \<notin> set attended_ids) staff_users)
        in Inr (today, absentees))"

record summary =
  total_staff :: int
  present_count :: int
  late_count :: int
  absent_count :: int

definition daily_summary :: "db \<Rightarrow> User \<Rightarrow> date \<Rightarrow> error + summary" where
  "daily_summary s current_user today =
     (if role current_user \<noteq> ''admin''
      then Inl (HTTPException 403 ''Admins-only'')
      else
        let staff_users = filter (\<lambda>u. role u = ''staff'') (users s);
            present = filter (\<lambda>a. date a = today \<and> status a = ''Present'') (attendance s);
            late = filter (\<lambda>a. date a = today \<and> status a = ''Late'') (attendance s)
        in Inr \<lparr>total_staff = int (length staff_users),
                present_count = int (length present),
                late_count = int (length late),
                absent_count = int (length staff_users) - int (length present)
                               - int (length late)\<rparr>)"

section \<open>Password reset (app/main.py, lines 277-306)\<close>

definition User_columns :: "string list" where
  "User_columns = [''id'', ''full_name'', ''email'', ''password'', ''role'']"

text \<open>
  \<^verbatim>\<open>models.User.name\<close>: the declarative class has one attribute for each mapped
  column; any other name raises AttributeError.
\<close>

definition User_attr :: "string \<Rightarrow> error + string" where
  "User_attr name = (if name \<in> set User_columns then Inr name else Inl (AttributeError name))"

datatype val = IntVal int | StrVal string | Null

definition column_value :: "User \<Rightarrow> string \<Rightarrow> val" where
  "column_value u c =
     (if c = ''id'' then IntVal (id_user u)
      else if c = ''full_name'' then StrVal (full_name u)
      else if c = ''email'' then StrVal (email u)
      else if c = ''password'' then StrVal (password u)
      else if c = ''role'' then StrVal (role u)
      else Null)"

text \<open>
  Writing a column of a row. The source assigns strings and None only; NULL in a
  column that holds no NULL here (the primary key and the NOT NULL columns; role is
  never assigned) is refused as the database refuses it.
\<close>

definition set_column :: "User \<Rightarrow> string \<Rightarrow> val \<Rightarrow> error + User" where
  "set_column u c v =
     (case v of
        StrVal x \<Rightarrow>
          if c = ''full_name'' then Inr (u\<lparr>full_name := x\<rparr>)
          else if c = ''email'' then Inr (u\<lparr>email := x\<rparr>)
          else if c = ''password'' then Inr (u\<lparr>password := x\<rparr>)
          else if c = ''role'' then Inr (u\<lparr>role := x\<rparr>)
          else Inl IntegrityError
      | IntVal i \<Rightarrow> if c = ''id'' then Inr (u\<lparr>id_user := i\<rparr>) else Inl IntegrityError
      | Null \<Rightarrow> Inl IntegrityError)"

fun update_rows :: "User list \<Rightarrow> int \<Rightarrow> string \<Rightarrow> val \<Rightarrow> error + User list" where
  "update_rows [] i c v = Inr []"
| "update_rows (u # us) i c v =
     (case update_rows us i c v of
        Inl e \<Rightarrow> Inl e
      | Inr us' \<Rightarrow>
          if id_user u = i
          then (case set_column u c v of Inl e \<Rightarrow> Inl e | Inr u' \<Rightarrow> Inr (u' # us'))
          else Inr (u # us'))"

text \<open>
  \<^verbatim>\<open>user.name = v\<close> followed by \<^verbatim>\<open>db.commit()\<close>: the flush writes the mapped
  columns of the row with the instance's primary key. An attribute that is no mapped
  column lives on the Python object only and is gone when the request's session is
  closed.
\<close>

definition setattr_commit :: "db \<Rightarrow> User \<Rightarrow> string \<Rightarrow> val \<Rightarrow> error + db" where
  "setattr_commit s user name v =
     (if name \<in> set User_columns
      then (case update_rows (users s) (id_user user) name v of
              Inl e \<Rightarrow> Inl e
            | Inr us \<Rightarrow> Inr (s\<lparr>users := us\<rparr>))
      else Inr s)"

text \<open>
  \<^verbatim>\<open>secrets.token_urlsafe(32)\<close> is the argument \<open>token\<close>. The response is
  (message, reset_token).
\<close>

definition forgot_password :: "db \<Rightarrow> string \<Rightarrow> string \<Rightarrow> (error + (string \<times> string)) \<times> db" where
  "forgot_password s em token =
     (case first (\<lambda>u. email u = em) (users s) of
        None \<Rightarrow> (Inl (HTTPException 404 ''Email not found''), s)
      | Some user \<Rightarrow>
          (case setattr_commit s user ''reset_token'' (StrVal token) of
             Inl e \<Rightarrow> (Inl e, s)
           | Inr s' \<Rightarrow> (Inr (''Reset token generated'', token), s')))"

text \<open>
  Line 297 evaluates \<^verbatim>\<open>models.User.reset_token\<close> to build the filter, before any
  row is read. Lines 302-304 assign the new hash and None and commit once.
\<close>

definition reset_password ::
  "(string \<Rightarrow> string) \<Rightarrow> db \<Rightarrow> string \<Rightarrow> string \<Rightarrow> (error + string) \<times> db" where
  "reset_password hp s token new_password =
     (case User_attr ''reset_token'' of
        Inl e \<Rightarrow> (Inl e, s)
      | Inr col \<Rightarrow>
          (case first (\<lambda>u. column_value u col = StrVal token) (users s) of
             None \<Rightarrow> (Inl (HTTPException 400 ''Invalid token''), s)
           | Some user \<Rightarrow>
               (case setattr_commit s user ''password'' (StrVal (hp new_password)) of
                  Inl e \<Rightarrow> (Inl e, s)
                | Inr s1 \<Rightarrow>
                    (case setattr_commit s1 user ''reset_token'' Null of
                       Inl e \<Rightarrow> (Inl e, s)
                     | Inr s2 \<Rightarrow> (Inr ''Password reset successful'', s2)))))"

section \<open>Deleting staff (app/main.py, lines 361-388)\<close>

definition delete_staff :: "db \<Rightarrow> User \<Rightarrow> int \<Rightarrow> (error + string) \<times> db" where
  "delete_staff s current_user staff_id =
     (if role current_user \<noteq> ''admin''
      then (Inl (HTTPException 403 ''Admins only''), s)
      else case first (\<lambda>u. id_user u = staff_id \<and> role u = ''staff'') (users s) of
        None \<Rightarrow> (Inl (HTTPException 404 ''Staff not found''), s)
      | Some staff \<Rightarrow>
          (Inr ''Staff deleted successfully'',
           s\<lparr>attendance := filter (\<lambda>a. user_id a \<noteq> staff_id) (attendance s),
             users := filter (\<lambda>u. id_user u \<noteq> id_user staff) (users s)\<rparr>))"

section \<open>Attendance percentage (app/main.py, lines 390-429)\<close>

text \<open>
  Python floats are IEEE-754 binary64 values, modelled by the rational numbers they
  denote. \<open>binary64 x\<close> rounds a rational to the nearest such value, ties to even,
  in the normal range (no overflow, no subnormals): with \<open>e\<close> the exponent of \<open>x\<close>,
  the significand has 53 bits and the spacing of the values around \<open>x\<close> is
  \<open>2 ^ (e - 52)\<close>.
\<close>

definition round_half_even :: "rat \<Rightarrow> int" where
  "round_half_even x =
     (let f = \<lfloor>x\<rfloor>; d = x - of_int f
      in if d < 1 / 2 then f else if 1 / 2 < d then f + 1 else if even f then f else f + 1)"

definition pow2 :: "int \<Rightarrow> rat" where
  "pow2 k = (if 0 \<le> k then 2 ^ nat k else 1 / 2 ^ nat (- k))"

function bit_length :: "int \<Rightarrow> int" where
  "bit_length n = (if n \<le> 0 then 0 else bit_length (n div 2) + 1)"
  by pat_completeness auto
termination
  by (relation "measure nat") auto

declare bit_length.simps [simp del]

definition binary64 :: "rat \<Rightarrow> rat" where
  "binary64 x =
     (if x = 0 then 0
      else
        let (n, d) = quotient_of \<bar>x\<bar>;
            k = bit_length n - bit_length d;
            e = (if pow2 k \<le> \<bar>x\<bar> then k else k - 1);
            ulp = pow2 (e - 52)
        in sgn x * of_int (round_half_even (\<bar>x\<bar> / ulp)) * ulp)"

text \<open>
  \<^verbatim>\<open>a / b\<close> on ints is the correctly rounded quotient and raises on a zero divisor;
  \<^verbatim>\<open>x * 100\<close> on a float is the correctly rounded product; \<^verbatim>\<open>round(x, 2)\<close> on a
  float is the float nearest to the decimal that is \<open>x\<close> rounded half-even to two
  places.
\<close>

definition truediv :: "int \<Rightarrow> int \<Rightarrow> error + rat" where
  "truediv a b = (if b = 0 then Inl ZeroDivisionError else Inr (binary64 (of_int a / of_int b)))"

definition float_mul :: "rat \<Rightarrow> rat \<Rightarrow> rat" where
  "float_mul x y = binary64 (x * y)"

definition round2 :: "rat \<Rightarrow> rat" where
  "round2 x = binary64 (of_int (round_half_even (x * 100)) / 100)"

datatype number = PyInt int | PyFloat rat

record staff_percentage =
  row_full_name :: string
  present_days :: int
  late_days :: int
  percentage :: number

text \<open>The body of the loop (lines 407-427) for one staff user.\<close>

definition staff_row :: "db \<Rightarrow> User \<Rightarrow> error + staff_percentage" where
  "staff_row s user =
     (let records = filter (\<lambda>r. user_id r = id_user user) (attendance s);
          total_days = int (length records);
          present = int (length (filter (\<lambda>r. status r = ''Present'') records));
          late = int (length (filter (\<lambda>r. status r = ''Late'') records));
          attended_days = present + late
      in case (if total_days > 0
               then (case truediv attended_days total_days of
                       Inl e \<Rightarrow> Inl e
                     | Inr q \<Rightarrow> Inr (PyFloat (round2 (float_mul q 100))))
               else Inr (PyInt 0)) of
           Inl e \<Rightarrow> Inl e
         | Inr p \<Rightarrow>
             Inr \<lparr>row_full_name = full_name user, present_days = present,
                  late_days = late, percentage = p\<rparr>)"

fun staff_rows :: "db \<Rightarrow> User list \<Rightarrow> staff_percentage list \<Rightarrow> error + staff_percentage list" where
  "staff_rows s [] results = Inr results"
| "staff_rows s (user # rest) results =
     (case staff_row s user of
        Inl e \<Rightarrow> Inl e
      | Inr r \<Rightarrow> staff_rows s rest (results @ [r]))"

definition attendance_percentage :: "db \<Rightarrow> User \<Rightarrow> error + staff_percentage list" where
  "attendance_percentage s current_user =
     (if role current_user \<noteq> ''admin''
      then Inl (HTTPException 403 ''Admins only'')
      else staff_rows s (filter (\<lambda>u. role u = ''staff'') (users s)) [])"

section \<open>Requests served one at a time\<close>

text \<open>
  The state-changing endpoints with their inputs; \<open>Startup\<close> is the startup hook.
  A request that raises leaves the store as it was (nothing was committed).
\<close>

datatype request =
    Startup
  | Register UserCreate
  | MarkAttendance "string option" host datetime
  | ForgotPassword string string
  | ResetPassword string string
  | DeleteStaff "string option" int

fun handle :: "(string \<Rightarrow> string) \<Rightarrow> db \<Rightarrow> request \<Rightarrow> db" where
  "handle hp s Startup = (case create_default_admin hp s of Inl e \<Rightarrow> s | Inr s' \<Rightarrow> s')"
| "handle hp s (Register user) = snd (register hp s user)"
| "handle hp s (MarkAttendance sub client now) =
     (case get_current_user s sub of
        Inl e \<Rightarrow> s
      | Inr current_user \<Rightarrow> snd (mark_attendance s client current_user now))"
| "handle hp s (ForgotPassword em token) = snd (forgot_password s em token)"
| "handle hp s (ResetPassword token new_password) = snd (reset_password hp s token new_password)"
| "handle hp s (DeleteStaff sub staff_id) =
     (case get_current_user s sub of
        Inl e \<Rightarrow> s
      | Inr current_user \<Rightarrow> snd (delete_staff s current_user staff_id))"

text \<open>\<^verbatim>\<open>create_all\<close> on an empty database.\<close>

definition empty_db :: db where
  "empty_db = \<lparr>users = [], attendance = [], next_user_id = 1, next_attendance_id = 1\<rparr>"

definition serve :: "(string \<Rightarrow> string) \<Rightarrow> request list \<Rightarrow> db" where
  "serve hp reqs = foldl (handle hp) empty_db reqs"

text \<open>
  What the sequential handlers maintain: primary keys of users are distinct and below
  the counter; every attendance record has status Present or Late and belongs to a
  staff user of the store; no two records share (user_id, date).
\<close>

definition store_invariant :: "db \<Rightarrow> bool" where
  "store_invariant s =
     (distinct (map id_user (users s)) \<and>
      (\<forall>u \<in> set (users s). id_user u < next_user_id s) \<and>
      distinct (map (\<lambda>a. (user_id a, date a)) (attendance s)) \<and>
      (\<forall>a \<in> set (attendance s).
         (status a = ''Present'' \<or> status a = ''Late'') \<and>
         (\<exists>u \<in> set (users s). id_user u = user_id a \<and> role u = ''staff'')))"

section \<open>Example inputs\<close>

text \<open>
  Stand-ins for the hasher and the verifier of app/auth.py, and a small store, used to
  evaluate the operations at concrete inputs. Day 738900 is 2024-01-15.
\<close>

definition ex_hash :: "string \<Rightarrow> string" where
  "ex_hash p = ''hash:'' @ p"

definition ex_verify :: "string \<Rightarrow> string \<Rightarrow> bool" where
  "ex_verify p h = (h = ex_hash p)"

definition ex_token :: "string \<Rightarrow> string \<Rightarrow> string" where
  "ex_token em r = ''token:'' @ em"

definition ex_admin :: User where
  "ex_admin = \<lparr>id_user = 1, full_name = ''System Admin'', email = ''admin@school.com'',
               password = ''hash:Admin@123'', role = ''admin''\<rparr>"

definition ex_staff :: User where
  "ex_staff = \<lparr>id_user = 2, full_name = ''Ama Mensah'', email = ''ama@school.com'',
               password = ''hash:secret'', role = ''staff''\<rparr>"

definition ex_db :: db where
  "ex_db = \<lparr>users = [ex_admin, ex_staff], attendance = [],
            next_user_id = 3, next_attendance_id = 1\<rparr>"

definition loopback :: host where
  "loopback = Literal (IPv4Address 0x7F000001)"

definition off_site :: host where
  "off_site = Literal (IPv4Address 0x0A000001)"

definition clock :: "nat \<Rightarrow> nat \<Rightarrow> nat \<Rightarrow> datetime" where
  "clock h m sec = \<lparr>dt_date = 738900,
                 dt_time = \<lparr>hour = h, minute = m, second = sec, microsecond = 0\<rparr>\<rparr>"

text \<open>
  Two check-ins of the same user that both read the store before either commits:
  each insert is the one \<open>mark_attendance\<close> performs after a passed check.
\<close>

definition ex_db_raced :: db where
  "ex_db_raced =
     add_attendance (add_attendance ex_db 2 738900 (clock 7 10 0) ''Present'')
       2 738900 (clock 7 10 1) ''Present''"

definition ex_requests :: "request list" where
  "ex_requests =
     [Startup,
      Register \<lparr>req_full_name = ''Ama Mensah'', req_email = ''ama@school.com'',
                req_password = ''secret'', req_role = ''staff''\<rparr>,
      MarkAttendance (Some ''ama@school.com'') loopback (clock 7 10 0),
      MarkAttendance (Some ''ama@school.com'') loopback (clock 7 10 1)]"

text \<open>
  A store at the end of a term: one staff user with a Present, a Late and an Absent
  record (the last written by hand, no handler persists it), one with no record.
\<close>

definition ex_staff2 :: User where
  "ex_staff2 = \<lparr>id_user = 3, full_name = ''Kofi Boateng'', email = ''kofi@school.com'',
                password = ''hash:pw'', role = ''staff''\<rparr>"

definition ex_db_term :: db where
  "ex_db_term =
     \<lparr>users = [ex_admin, ex_staff, ex_staff2],
      attendance =
        [\<lparr>id_attendance = 1, user_id = 2, date = 738900, check_in = clock 7 10 0,
          status = ''Present''\<rparr>,
         \<lparr>id_attendance = 2, user_id = 2, date = 738901, check_in = clock 7 45 0,
          status = ''Late''\<rparr>,
         \<lparr>id_attendance = 3, user_id = 2, date = 738902, check_in = clock 9 0 0,
          status = ''Absent''\<rparr>],
      next_user_id = 4, next_attendance_id = 4\<rparr>"

section \<open>Properties\<close>

lemma first_None_iff: "first P rows = None \<longleftrightarrow> (\<forall>x \<in> set rows. \<not> P x)"
  by (auto simp: first_def find_None_iff)

lemma first_SomeD: "first P rows = Some x \<Longrightarrow> x \<in> set rows \<and> P x"
  by (auto simp: first_def find_Some_iff)

lemma lower_admin: "lower ''admin'' = ''admin''"
  by (simp add: lower_def lower_char_def)

lemma in_allowed_network_iff:
  "in_network a allowed_network \<longleftrightarrow> a = IPv4Address 0x7F000001"
  by (cases a) (simp_all add: allowed_network_def netmask_def)

subsection \<open>What the sequential handlers maintain\<close>

lemma invariant_add_user:
  assumes "store_invariant s" and "add_user s fn em pw r = Inr s'"
  shows "store_invariant s'"
proof -
  from assms(2) have s': "s' = s\<lparr>users := users s @
        [\<lparr>id_user = next_user_id s, full_name = fn, email = em, password = pw, role = r\<rparr>],
      next_user_id := next_user_id s + 1\<rparr>"
    by (auto simp: add_user_def split: if_splits)
  from assms(1) show ?thesis
    unfolding s' store_invariant_def by (auto simp: image_iff) 
qed

lemma invariant_create_default_admin:
  "store_invariant s \<Longrightarrow> create_default_admin hp s = Inr s' \<Longrightarrow> store_invariant s'"
  by (auto simp: create_default_admin_def split: option.splits intro: invariant_add_user)

lemma invariant_register:
  "store_invariant s \<Longrightarrow> store_invariant (snd (register hp s user))"
  by (auto simp: register_def split: option.splits sum.splits intro: invariant_add_user)

lemma invariant_mark_attendance:
  assumes inv: "store_invariant s" and cu: "current_user \<in> set (users s)"
  shows "store_invariant (snd (mark_attendance s client current_user now))"
proof (cases "mark_attendance_status s client current_user now")
  case (Inl e)
  with inv show ?thesis by (simp add: mark_attendance_def)
next
  case (Inr st)
  then have staff: "role current_user = ''staff''"
    and none: "first (\<lambda>a. user_id a = id_user current_user \<and> date a = dt_date now) (attendance s) = None"
    and st: "st = ''Present'' \<or> st = ''Late''"
    by (auto simp: mark_attendance_status_def split: sum.splits if_splits option.splits)
  from none have fresh: "(id_user current_user, dt_date now) \<notin> (\<lambda>a. (user_id a, date a)) ` set (attendance s)"
    by (auto simp: first_None_iff)
  from inv cu staff st fresh have "store_invariant (add_attendance s (id_user current_user) (dt_date now) now st)"
    unfolding store_invariant_def add_attendance_def by auto
  with Inr show ?thesis by (simp add: mark_attendance_def)
qed

lemma forgot_password_store: "snd (forgot_password s em token) = s"
  by (simp add: forgot_password_def setattr_commit_def User_columns_def split: option.splits)

lemma reset_password_raises: "reset_password hp s token new_password = (Inl (AttributeError ''reset_token''), s)"
  by (simp add: reset_password_def User_attr_def User_columns_def)

lemma invariant_delete_staff:
  assumes inv: "store_invariant s"
  shows "store_invariant (snd (delete_staff s current_user staff_id))"
proof (cases "role current_user = ''admin''")
  case False
  with inv show ?thesis by (simp add: delete_staff_def)
next
  case True
  show ?thesis
  proof (cases "first (\<lambda>u. id_user u = staff_id \<and> role u = ''staff'') (users s)")
    case None
    with True inv show ?thesis by (simp add: delete_staff_def)
  next
    case (Some staff)
    from first_SomeD [OF Some] have i: "id_user staff = staff_id" by simp
    have "store_invariant (s\<lparr>attendance := filter (\<lambda>a. user_id a \<noteq> staff_id) (attendance s),
             users := filter (\<lambda>u. id_user u \<noteq> staff_id) (users s)\<rparr>)"
      using inv unfolding store_invariant_def
      by (auto simp: distinct_map_filter) metis
    with True Some i show ?thesis by (simp add: delete_staff_def)
  qed
qed

lemma get_current_user_member: "get_current_user s sub = Inr u \<Longrightarrow> u \<in> set (users s)"
  by (auto simp: get_current_user_def split: option.splits dest: first_SomeD)

lemma invariant_handle: "store_invariant s \<Longrightarrow> store_invariant (handle hp s r)"
proof (cases r)
  case Startup
  assume "store_invariant s"
  then show ?thesis using Startup
    by (auto split: sum.splits intro: invariant_create_default_admin)
next
  case (Register user)
  assume "store_invariant s"
  then show ?thesis using Register by (simp add: invariant_register)
next
  case (MarkAttendance sub client now)
  assume "store_invariant s"
  then show ?thesis using MarkAttendance
    by (auto split: sum.splits intro: invariant_mark_attendance get_current_user_member)
next
  case (ForgotPassword em token)
  assume "store_invariant s"
  then show ?thesis using ForgotPassword by (simp add: forgot_password_store)
next
  case (ResetPassword token pw)
  assume "store_invariant s"
  then show ?thesis using ResetPassword by (simp add: reset_password_raises)
next
  case (DeleteStaff sub staff_id)
  assume "store_invariant s"
  then show ?thesis using DeleteStaff
    by (auto split: sum.splits intro: invariant_delete_staff)
qed

lemma invariant_foldl: "store_invariant s \<Longrightarrow> store_invariant (foldl (handle hp) s reqs)"
  by (induction reqs arbitrary: s) (auto intro: invariant_handle)

lemma invariant_empty_db: "store_invariant empty_db"
  by (simp add: store_invariant_def empty_db_def)

lemma invariant_serve: "store_invariant (serve hp reqs)"
  unfolding serve_def by (rule invariant_foldl [OF invariant_empty_db])

lemma ex_serve:
  "serve ex_hash ex_requests =
     \<lparr>users = [ex_admin, ex_staff],
      attendance = [\<lparr>id_attendance = 1, user_id = 2, date = 738900,
                     check_in = clock 7 10 0, status = ''Present''\<rparr>],
      next_user_id = 3, next_attendance_id = 2\<rparr>"
  by (simp add: serve_def ex_requests_def empty_db_def create_default_admin_def first_def
      add_user_def register_def lower_def lower_char_def ex_hash_def get_current_user_def
      mark_attendance_def mark_attendance_status_def loopback_def allowed_network_def
      netmask_def add_attendance_def clock_def time_gt_def close_time_def late_time_def
      time_def ex_admin_def ex_staff_def)

subsection \<open>Counting lemmas\<close>

lemma length_filter_split:
  assumes "\<forall>x \<in> set xs. P x \<longrightarrow> (Q1 x \<or> Q2 x) \<and> \<not> (Q1 x \<and> Q2 x)"
  shows "length (filter (\<lambda>x. P x \<and> Q1 x) xs) + length (filter (\<lambda>x. P x \<and> Q2 x) xs)
         = length (filter P xs)"
  using assms by (induction xs) auto

lemma distinct_user_id_on_day:
  assumes "distinct (map (\<lambda>a. (user_id a, date a)) rs)"
  shows "distinct (map user_id (filter (\<lambda>a. date a = D) rs))"
  using assms by (induction rs) (auto simp: image_iff)

lemma length_filter_members:
  assumes "distinct (map f xs)" and "distinct ks" and "set ks \<subseteq> f ` set xs"
  shows "length (filter (\<lambda>x. f x \<in> set ks) xs) = length ks"
proof -
  let ?ys = "filter (\<lambda>x. f x \<in> set ks) xs"
  from assms(1) have d: "distinct (map f ?ys)" by (rule distinct_map_filter)
  have "set (map f ?ys) = set ks" using assms(3) by auto
  then have "card (set (map f ?ys)) = card (set ks)" by (rule arg_cong)
  moreover have "card (set (map f ?ys)) = length (map f ?ys)" using d by (rule distinct_card)
  moreover have "card (set ks) = length ks" using assms(2) by (rule distinct_card)
  ultimately have "length (map f ?ys) = length ks" by simp
  then show ?thesis by simp
qed

lemma absent_count_eq:
  assumes inv: "store_invariant s"
  shows "int (length (filter (\<lambda>u. id_user u \<notin> set (map user_id (filter (\<lambda>a. date a = D) (attendance s))))
                     (filter (\<lambda>u. role u = ''staff'') (users s))))
         = int (length (filter (\<lambda>u. role u = ''staff'') (users s)))
           - int (length (filter (\<lambda>a. date a = D \<and> status a = ''Present'') (attendance s)))
           - int (length (filter (\<lambda>a. date a = D \<and> status a = ''Late'') (attendance s)))"
proof -
  let ?S = "filter (\<lambda>u. role u = ''staff'') (users s)"
  let ?R = "filter (\<lambda>a. date a = D) (attendance s)"
  let ?ids = "map user_id ?R"
  from inv have st: "\<forall>a \<in> set (attendance s). date a = D \<longrightarrow>
      (status a = ''Present'' \<or> status a = ''Late'') \<and> \<not> (status a = ''Present'' \<and> status a = ''Late'')"
    by (auto simp: store_invariant_def)
  have split: "length (filter (\<lambda>a. date a = D \<and> status a = ''Present'') (attendance s))
        + length (filter (\<lambda>a. date a = D \<and> status a = ''Late'') (attendance s)) = length ?R"
    by (rule length_filter_split [OF st])
  from inv have dk: "distinct ?ids"
    by (auto simp: store_invariant_def intro: distinct_user_id_on_day)
  from inv have dS: "distinct (map id_user ?S)"
    by (auto simp: store_invariant_def intro: distinct_map_filter)
  have sub: "set ?ids \<subseteq> id_user ` set ?S"
  proof
    fix i assume "i \<in> set ?ids"
    then obtain a where a: "a \<in> set (attendance s)" "user_id a = i" by auto
    with inv obtain u where "u \<in> set (users s)" "id_user u = user_id a" "role u = ''staff''"
      unfolding store_invariant_def by blast
    with a show "i \<in> id_user ` set ?S" by force
  qed
  have mem: "length (filter (\<lambda>u. id_user u \<in> set ?ids) ?S) = length ?ids"
    by (rule length_filter_members [OF dS dk sub])
  have "length ?S = length (filter (\<lambda>u. id_user u \<in> set ?ids) ?S)
                    + length (filter (\<lambda>u. id_user u \<notin> set ?ids) ?S)"
    by (rule sum_length_filter_compl [symmetric])
  with mem split show ?thesis by simp
qed

lemma length_filter_key_le_1:
  "distinct (map f xs) \<Longrightarrow> length (filter (\<lambda>x. f x = k) xs) \<le> 1"
proof (induction xs)
  case Nil
  then show ?case by simp
next
  case (Cons x xs)
  show ?case
  proof (cases "f x = k")
    case True
    with Cons.prems have "\<forall>y \<in> set xs. f y \<noteq> k" by (auto simp: image_iff)
    then have "filter (\<lambda>x. f x = k) xs = []" by (simp add: filter_empty_conv)
    with True show ?thesis by simp
  next
    case False
    with Cons show ?thesis by simp
  qed
qed

subsection \<open>Attendance engine\<close>

text \<open>
  C1 (amended). In every store reached by serving requests one at a time from the empty
  database, at most one attendance record exists for each user and date; a check-in by a
  staff user from the approved address is rejected with 400 "Already marked today"
  whenever a record for that user and date exists. The schema declares no uniqueness of
  (user_id, date): the insert adds its record whatever the table holds.
\<close>

theorem one_record_per_user_and_day:
  "length (filter (\<lambda>r. user_id r = U \<and> date r = D) (attendance (serve hp reqs))) \<le> 1 \<and>
   (ip_address client = Inr a \<and> in_network a allowed_network \<and>
    role current_user = ''staff'' \<and>
    (\<exists>r \<in> set (attendance s). user_id r = id_user current_user \<and> date r = dt_date now)
    \<longrightarrow> mark_attendance s client current_user now =
          (Inl (HTTPException 400 ''Already marked today''), s)) \<and>
   length (filter (\<lambda>r. user_id r = U \<and> date r = D) (attendance (add_attendance s U D t st)))
     = length (filter (\<lambda>r. user_id r = U \<and> date r = D) (attendance s)) + 1"
proof (intro conjI impI)
  have "distinct (map (\<lambda>r. (user_id r, date r)) (attendance (serve hp reqs)))"
    using invariant_serve [of hp reqs] by (simp add: store_invariant_def)
  then have "length (filter (\<lambda>r. (user_id r, date r) = (U, D)) (attendance (serve hp reqs))) \<le> 1"
    by (rule length_filter_key_le_1)
  then show "length (filter (\<lambda>r. user_id r = U \<and> date r = D) (attendance (serve hp reqs))) \<le> 1"
    by simp
next
  assume h: "ip_address client = Inr a \<and> in_network a allowed_network \<and>
    role current_user = ''staff'' \<and>
    (\<exists>r \<in> set (attendance s). user_id r = id_user current_user \<and> date r = dt_date now)"
  then obtain r where
    "first (\<lambda>r. user_id r = id_user current_user \<and> date r = dt_date now) (attendance s) = Some r"
    by (cases "first (\<lambda>r. user_id r = id_user current_user \<and> date r = dt_date now) (attendance s)")
       (auto simp: first_None_iff)
  with h show "mark_attendance s client current_user now =
          (Inl (HTTPException 400 ''Already marked today''), s)"
    by (simp add: mark_attendance_def mark_attendance_status_def)
next
  show "length (filter (\<lambda>r. user_id r = U \<and> date r = D) (attendance (add_attendance s U D t st)))
     = length (filter (\<lambda>r. user_id r = U \<and> date r = D) (attendance s)) + 1"
    by (simp add: add_attendance_def)
qed

theorem one_record_per_user_and_day_witness:
  "length (filter (\<lambda>r. user_id r = 2 \<and> date r = 738900) (attendance (serve ex_hash ex_requests))) = 1 \<and>
   mark_attendance (serve ex_hash ex_requests) loopback ex_staff (clock 7 10 1) =
     (Inl (HTTPException 400 ''Already marked today''), serve ex_hash ex_requests)"
  using one_record_per_user_and_day [of 2 738900 ex_hash ex_requests loopback
      "IPv4Address 0x7F000001" ex_staff "serve ex_hash ex_requests" "clock 7 10 1"]
  by (simp add: ex_serve loopback_def in_allowed_network_iff ex_staff_def clock_def)

text \<open>
  C1 as stated fails: two check-ins of one staff user on one day that both read
  the store before either commits both pass the existence check, both inserts succeed,
  and the table holds two records for that user and day.
\<close>

theorem concurrent_check_ins_counterexample:
  "mark_attendance_status ex_db loopback ex_staff (clock 7 10 0) = Inr ''Present'' \<and>
   mark_attendance_status ex_db loopback ex_staff (clock 7 10 1) = Inr ''Present'' \<and>
   length (filter (\<lambda>r. user_id r = 2 \<and> date r = 738900) (attendance ex_db_raced)) = 2"
  by (simp add: first_def ex_db_def clock_def time_gt_def close_time_def late_time_def time_def
      ex_staff_def mark_attendance_status_def loopback_def allowed_network_def netmask_def
      ex_db_raced_def add_attendance_def)

text \<open>
  C2. For every check-in that has passed the location gate and the role check (a staff
  user from the allowed network) with no record for that user and date: a time of day
  strictly later than 08:00:00 is rejected with 403 "Attendance closed for today" and
  the store is unchanged; otherwise the response carries, and the table gains as its
  one new row, a record of that user, date and timestamp whose status is Late when the
  time of day is strictly later than 07:30:00 and Present otherwise.
\<close>

theorem check_in_window:
  assumes "ip_address client = Inr a" and "in_network a allowed_network"
    and "role current_user = ''staff''"
    and "\<forall>r \<in> set (attendance s). \<not> (user_id r = id_user current_user \<and> date r = dt_date now)"
  shows "mark_attendance s client current_user now =
     (if time_gt (dt_time now) (time 8 0)
      then (Inl (HTTPException 403 ''Attendance closed for today''), s)
      else if time_gt (dt_time now) (time 7 30)
      then (Inr (''Attendance marked'', ''Late''),
            s\<lparr>attendance := attendance s @
                 [\<lparr>id_attendance = next_attendance_id s, user_id = id_user current_user,
                   date = dt_date now, check_in = now, status = ''Late''\<rparr>],
              next_attendance_id := next_attendance_id s + 1\<rparr>)
      else (Inr (''Attendance marked'', ''Present''),
            s\<lparr>attendance := attendance s @
                 [\<lparr>id_attendance = next_attendance_id s, user_id = id_user current_user,
                   date = dt_date now, check_in = now, status = ''Present''\<rparr>],
              next_attendance_id := next_attendance_id s + 1\<rparr>))"
proof -
  from assms(4) have
    "first (\<lambda>r. user_id r = id_user current_user \<and> date r = dt_date now) (attendance s) = None"
    by (simp add: first_None_iff)
  with assms(1-3) show ?thesis
    by (simp add: mark_attendance_def mark_attendance_status_def close_time_def late_time_def
        add_attendance_def)
qed

theorem check_in_window_witness:
  "mark_attendance ex_db loopback ex_staff (clock 7 29 59) =
     (Inr (''Attendance marked'', ''Present''),
      \<lparr>users = [ex_admin, ex_staff],
       attendance = [\<lparr>id_attendance = 1, user_id = 2, date = 738900,
                      check_in = clock 7 29 59, status = ''Present''\<rparr>],
       next_user_id = 3, next_attendance_id = 2\<rparr>) \<and>
   mark_attendance ex_db loopback ex_staff (clock 7 30 0) =
     (Inr (''Attendance marked'', ''Present''),
      \<lparr>users = [ex_admin, ex_staff],
       attendance = [\<lparr>id_attendance = 1, user_id = 2, date = 738900,
                      check_in = clock 7 30 0, status = ''Present''\<rparr>],
       next_user_id = 3, next_attendance_id = 2\<rparr>) \<and>
   mark_attendance ex_db loopback ex_staff (clock 7 30 1) =
     (Inr (''Attendance marked'', ''Late''),
      \<lparr>users = [ex_admin, ex_staff],
       attendance = [\<lparr>id_attendance = 1, user_id = 2, date = 738900,
                      check_in = clock 7 30 1, status = ''Late''\<rparr>],
       next_user_id = 3, next_attendance_id = 2\<rparr>) \<and>
   mark_attendance ex_db loopback ex_staff (clock 8 0 0) =
     (Inr (''Attendance marked'', ''Late''),
      \<lparr>users = [ex_admin, ex_staff],
       attendance = [\<lparr>id_attendance = 1, user_id = 2, date = 738900,
                      check_in = clock 8 0 0, status = ''Late''\<rparr>],
       next_user_id = 3, next_attendance_id = 2\<rparr>) \<and>
   mark_attendance ex_db loopback ex_staff (clock 8 0 1) =
     (Inl (HTTPException 403 ''Attendance closed for today''), ex_db)"
proof -
  have a: "ip_address loopback = Inr (IPv4Address 0x7F000001)"
    by (simp add: loopback_def)
  have b: "in_network (IPv4Address 0x7F000001) allowed_network"
    by (simp add: in_allowed_network_iff)
  have c: "role ex_staff = ''staff''"
    by (simp add: ex_staff_def)
  have d: "\<forall>r \<in> set (attendance ex_db). \<not> (user_id r = id_user ex_staff \<and> date r = dt_date now)"
    for now by (simp add: ex_db_def)
  have 1: "mark_attendance ex_db loopback ex_staff (clock 7 29 59) =
     (Inr (''Attendance marked'', ''Present''),
      \<lparr>users = [ex_admin, ex_staff],
       attendance = [\<lparr>id_attendance = 1, user_id = 2, date = 738900,
                      check_in = clock 7 29 59, status = ''Present''\<rparr>],
       next_user_id = 3, next_attendance_id = 2\<rparr>)"
    using check_in_window [OF a b c d, of "clock 7 29 59"]
    by (simp add: clock_def time_gt_def time_def ex_staff_def ex_db_def)
  have 2: "mark_attendance ex_db loopback ex_staff (clock 7 30 0) =
     (Inr (''Attendance marked'', ''Present''),
      \<lparr>users = [ex_admin, ex_staff],
       attendance = [\<lparr>id_attendance = 1, user_id = 2, date = 738900,
                      check_in = clock 7 30 0, status = ''Present''\<rparr>],
       next_user_id = 3, next_attendance_id = 2\<rparr>)"
    using check_in_window [OF a b c d, of "clock 7 30 0"]
    by (simp add: clock_def time_gt_def time_def ex_staff_def ex_db_def)
  have 3: "mark_attendance ex_db loopback ex_staff (clock 7 30 1) =
     (Inr (''Attendance marked'', ''Late''),
      \<lparr>users = [ex_admin, ex_staff],
       attendance = [\<lparr>id_attendance = 1, user_id = 2, date = 738900,
                      check_in = clock 7 30 1, status = ''Late''\<rparr>],
       next_user_id = 3, next_attendance_id = 2\<rparr>)"
    using check_in_window [OF a b c d, of "clock 7 30 1"]
    by (simp add: clock_def time_gt_def time_def ex_staff_def ex_db_def)
  have 4: "mark_attendance ex_db loopback ex_staff (clock 8 0 0) =
     (Inr (''Attendance marked'', ''Late''),
      \<lparr>users = [ex_admin, ex_staff],
       attendance = [\<lparr>id_attendance = 1, user_id = 2, date = 738900,
                      check_in = clock 8 0 0, status = ''Late''\<rparr>],
       next_user_id = 3, next_attendance_id = 2\<rparr>)"
    using check_in_window [OF a b c d, of "clock 8 0 0"]
    by (simp add: clock_def time_gt_def time_def ex_staff_def ex_db_def)
  have 5: "mark_attendance ex_db loopback ex_staff (clock 8 0 1) =
     (Inl (HTTPException 403 ''Attendance closed for today''), ex_db)"
    using check_in_window [OF a b c d, of "clock 8 0 1"]
    by (simp add: clock_def time_gt_def time_def)
  from 1 2 3 4 5 show ?thesis by (intro conjI)
qed

text \<open>
  C3. The location gate comes before the time window: a check-in from an address
  outside the allowed network is rejected with 403 "Attendance allowed only on school
  network" whatever the time, the user and the store, and the store is unchanged, so
  no attendance record is created.
\<close>

theorem location_gate_first:
  assumes "ip_address client = Inr a" and "\<not> in_network a allowed_network"
  shows "mark_attendance s client current_user now =
           (Inl (HTTPException 403 ''Attendance allowed only on school network''), s)"
  using assms by (simp add: mark_attendance_def mark_attendance_status_def)

theorem location_gate_first_witness:
  "\<not> time_gt (dt_time (clock 7 10 0)) close_time \<and>
   mark_attendance ex_db off_site ex_staff (clock 7 10 0) =
     (Inl (HTTPException 403 ''Attendance allowed only on school network''), ex_db)"
proof -
  have a: "ip_address off_site = Inr (IPv4Address 0x0A000001)"
    by (simp add: off_site_def)
  have b: "\<not> in_network (IPv4Address 0x0A000001) allowed_network"
    by (simp add: in_allowed_network_iff)
  show ?thesis
    using location_gate_first [OF a b, of ex_db ex_staff "clock 7 10 0"]
    by (simp add: clock_def time_gt_def close_time_def time_def)
qed

subsection \<open>Password reset\<close>

text \<open>
  C4. The claim is that a reset token returned by forgot-password can be consumed by
  reset-password exactly once. The code does not do this: the column
  \<^verbatim>\<open>reset_token\<close> is declared outside class \<^verbatim>\<open>User\<close>, so forgot-password
  stores nothing and reset-password raises AttributeError on the token it was just
  given, leaving the password unchanged.
\<close>

theorem reset_round_trip_fails:
  "forgot_password ex_db ''ama@school.com'' ''tok'' =
     (Inr (''Reset token generated'', ''tok''), ex_db) \<and>
   reset_password hp ex_db ''tok'' ''new'' = (Inl (AttributeError ''reset_token''), ex_db)"
  by (simp add: reset_password_raises forgot_password_def first_def ex_db_def ex_admin_def
      ex_staff_def setattr_commit_def User_columns_def)

subsection \<open>Registration and login\<close>

text \<open>
  C5. A registration whose requested role is admin (in any letter case) fails with 403
  and leaves the store unchanged, whatever the rest of the payload; every successful
  registration appends exactly one user, and that user has role staff, whatever role
  string was requested.
\<close>

theorem register_staff_only:
  "(req_role user = ''admin'' \<longrightarrow>
      register hp s user = (Inl (HTTPException 403 ''Admin registration not allowed''), s)) \<and>
   (lower (req_role user) = ''admin'' \<longrightarrow>
      register hp s user = (Inl (HTTPException 403 ''Admin registration not allowed''), s)) \<and>
   (\<forall>msg s'. register hp s user = (Inr msg, s') \<longrightarrow>
      users s' = users s @
        [\<lparr>id_user = next_user_id s, full_name = req_full_name user, email = req_email user,
          password = hp (req_password user), role = ''staff''\<rparr>])"
  by (auto simp: register_def lower_admin add_user_def split: option.splits if_splits sum.splits)

theorem register_staff_only_witness:
  "register ex_hash ex_db \<lparr>req_full_name = ''Kofi Boateng'', req_email = ''kofi@school.com'',
       req_password = ''pw'', req_role = ''admin''\<rparr> =
     (Inl (HTTPException 403 ''Admin registration not allowed''), ex_db) \<and>
   register ex_hash ex_db \<lparr>req_full_name = ''Kofi Boateng'', req_email = ''kofi@school.com'',
       req_password = ''pw'', req_role = ''ADMIN''\<rparr> =
     (Inl (HTTPException 403 ''Admin registration not allowed''), ex_db) \<and>
   users (snd (register ex_hash ex_db \<lparr>req_full_name = ''Kofi Boateng'',
       req_email = ''kofi@school.com'', req_password = ''pw'', req_role = ''principal''\<rparr>)) =
     users ex_db @
       [\<lparr>id_user = 3, full_name = ''Kofi Boateng'', email = ''kofi@school.com'',
         password = ''hash:pw'', role = ''staff''\<rparr>]"
proof -
  let ?a = "\<lparr>req_full_name = ''Kofi Boateng'', req_email = ''kofi@school.com'',
       req_password = ''pw'', req_role = ''admin''\<rparr>"
  let ?b = "\<lparr>req_full_name = ''Kofi Boateng'', req_email = ''kofi@school.com'',
       req_password = ''pw'', req_role = ''ADMIN''\<rparr>"
  let ?c = "\<lparr>req_full_name = ''Kofi Boateng'', req_email = ''kofi@school.com'',
       req_password = ''pw'', req_role = ''principal''\<rparr>"
  have ra: "req_role ?a = ''admin''"
    by simp
  have "lower ''ADMIN'' = ''admin''"
    by code_simp
  then have rb: "lower (req_role ?b) = ''admin''"
    by simp
  have "fst (register ex_hash ex_db ?c) = Inr ''Staff registered successfully''"
    by (simp add: register_def lower_def lower_char_def first_def ex_db_def ex_admin_def
        ex_staff_def add_user_def)
  then have rc: "register ex_hash ex_db ?c =
      (Inr ''Staff registered successfully'', snd (register ex_hash ex_db ?c))"
    by (simp add: prod_eq_iff)
  have 1: "register ex_hash ex_db ?a =
      (Inl (HTTPException 403 ''Admin registration not allowed''), ex_db)"
    using register_staff_only [of ?a ex_hash ex_db] ra by blast
  have 2: "register ex_hash ex_db ?b =
      (Inl (HTTPException 403 ''Admin registration not allowed''), ex_db)"
    using register_staff_only [of ?b ex_hash ex_db] rb by blast
  have "users (snd (register ex_hash ex_db ?c)) = users ex_db @
      [\<lparr>id_user = next_user_id ex_db, full_name = req_full_name ?c, email = req_email ?c,
        password = ex_hash (req_password ?c), role = ''staff''\<rparr>]"
    using register_staff_only [of ?c ex_hash ex_db] rc by blast
  then have 3: "users (snd (register ex_hash ex_db ?c)) = users ex_db @
      [\<lparr>id_user = 3, full_name = ''Kofi Boateng'', email = ''kofi@school.com'',
        password = ''hash:pw'', role = ''staff''\<rparr>]"
    by (simp add: ex_db_def ex_hash_def)
  from 1 2 3 show ?thesis by blast
qed

text \<open>
  C8. A login with a registered email and a password that does not verify, and a
  login with an email that is not registered, return the same error: 400 with detail
  "Invalid credentials".
\<close>

theorem login_same_error:
  assumes "e1 \<in> email ` set (users s)"
    and "\<forall>u \<in> set (users s). email u = e1 \<longrightarrow> \<not> vp pw1 (password u)"
    and "e2 \<notin> email ` set (users s)"
  shows "login vp cat s e1 pw1 = login vp cat s e2 pw2 \<and>
         login vp cat s e2 pw2 = Inl (HTTPException 400 ''Invalid credentials'')"
proof -
  from assms(1) obtain u where u: "first (\<lambda>u. email u = e1) (users s) = Some u"
    by (cases "first (\<lambda>u. email u = e1) (users s)") (auto simp: first_None_iff)
  from first_SomeD [OF u] assms(2) have "\<not> vp pw1 (password u)" by blast
  with u have a: "login vp cat s e1 pw1 = Inl (HTTPException 400 ''Invalid credentials'')"
    by (simp add: login_def)
  from assms(3) have "first (\<lambda>u. email u = e2) (users s) = None"
    by (auto simp: first_None_iff)
  then have b: "login vp cat s e2 pw2 = Inl (HTTPException 400 ''Invalid credentials'')"
    by (simp add: login_def)
  from a b show ?thesis by simp
qed

theorem login_same_error_witness:
  "login ex_verify ex_token ex_db ''ama@school.com'' ''guess'' =
     Inl (HTTPException 400 ''Invalid credentials'') \<and>
   login ex_verify ex_token ex_db ''nobody@school.com'' ''guess'' =
     Inl (HTTPException 400 ''Invalid credentials'') \<and>
   login ex_verify ex_token ex_db ''ama@school.com'' ''secret'' =
     Inr (''token:ama@school.com'', ''bearer'', ''staff'')"
proof -
  have a: "''ama@school.com'' \<in> email ` set (users ex_db)"
    by (simp add: ex_db_def ex_staff_def)
  have b: "\<forall>u \<in> set (users ex_db). email u = ''ama@school.com'' \<longrightarrow> \<not> ex_verify ''guess'' (password u)"
    by (simp add: ex_db_def ex_staff_def ex_admin_def ex_verify_def ex_hash_def)
  have c: "''nobody@school.com'' \<notin> email ` set (users ex_db)"
    by (simp add: ex_db_def ex_staff_def ex_admin_def)
  have d: "login ex_verify ex_token ex_db ''ama@school.com'' ''secret'' =
     Inr (''token:ama@school.com'', ''bearer'', ''staff'')"
    by (simp add: login_def first_def ex_db_def ex_staff_def ex_admin_def ex_verify_def
        ex_hash_def ex_token_def)
  show ?thesis
    using login_same_error [where vp = ex_verify and ?pw1.0 = "''guess''" and cat = ex_token
        and ?pw2.0 = "''guess''", OF a b c] d
    by simp
qed

subsection \<open>Reports and deletion\<close>

text \<open>
  C6 (amended). For every date and every store in which user ids are distinct, every
  attendance record has status Present or Late and belongs to a staff user, and no two
  records share (user_id, date) - every store reached by serving requests one at a
  time is such a store - the absent_count of daily_summary equals the number of
  absentees returned by get_absentees.
\<close>

theorem absent_count_matches_absentees:
  assumes "store_invariant s" and "role current_user = ''admin''"
  shows "\<exists>sm ab. daily_summary s current_user D = Inr sm \<and>
                 get_absentees s current_user D = Inr (D, ab) \<and>
                 absent_count sm = int (length ab)"
  using assms(2) absent_count_eq [OF assms(1), of D]
  by (simp add: daily_summary_def get_absentees_def Let_def)

theorem absent_count_matches_absentees_witness:
  "store_invariant (serve ex_hash ex_requests) \<and>
   daily_summary (serve ex_hash ex_requests) ex_admin 738900 =
     Inr \<lparr>total_staff = 1, present_count = 1, late_count = 0, absent_count = 0\<rparr> \<and>
   get_absentees (serve ex_hash ex_requests) ex_admin 738900 = Inr (738900, []) \<and>
   daily_summary (serve ex_hash ex_requests) ex_admin 738901 =
     Inr \<lparr>total_staff = 1, present_count = 0, late_count = 0, absent_count = 1\<rparr> \<and>
   get_absentees (serve ex_hash ex_requests) ex_admin 738901 =
     Inr (738901, [(2, ''Ama Mensah'', ''ama@school.com'')])"
proof -
  have a: "store_invariant (serve ex_hash ex_requests)"
    by (rule invariant_serve)
  have b: "role ex_admin = ''admin''"
    by (simp add: ex_admin_def)
  show ?thesis
    using a absent_count_matches_absentees [OF a b, of 738900]
      absent_count_matches_absentees [OF a b, of 738901]
    by (simp add: ex_serve daily_summary_def get_absentees_def ex_admin_def ex_staff_def)
qed

text \<open>
  C6 as stated fails on the store left by two check-ins that raced (two records
  of the one staff user on one day): absent_count is -1 and the list of absentees is
  empty.
\<close>

theorem absent_count_counterexample:
  "daily_summary ex_db_raced ex_admin 738900 =
     Inr \<lparr>total_staff = 1, present_count = 2, late_count = 0, absent_count = - 1\<rparr> \<and>
   get_absentees ex_db_raced ex_admin 738900 = Inr (738900, [])"
  by (simp add: daily_summary_def get_absentees_def ex_db_raced_def ex_db_def add_attendance_def
      ex_admin_def ex_staff_def clock_def)

text \<open>
  C9. For an admin caller: when no user with the given id and role staff exists (also
  when the id is an admin's), delete-staff fails with 404 and the store is unchanged;
  otherwise the users and the attendance records with that id are removed and every
  other user and every other user's records stay as they were.
\<close>

theorem delete_staff_cascade:
  assumes "role current_user = ''admin''"
  shows "(if \<exists>u \<in> set (users s). id_user u = staff_id \<and> role u = ''staff''
          then delete_staff s current_user staff_id =
                 (Inr ''Staff deleted successfully'',
                  s\<lparr>attendance := filter (\<lambda>a. user_id a \<noteq> staff_id) (attendance s),
                    users := filter (\<lambda>u. id_user u \<noteq> staff_id) (users s)\<rparr>)
          else delete_staff s current_user staff_id =
                 (Inl (HTTPException 404 ''Staff not found''), s))"
proof (cases "first (\<lambda>u. id_user u = staff_id \<and> role u = ''staff'') (users s)")
  case None
  then have "\<not> (\<exists>u \<in> set (users s). id_user u = staff_id \<and> role u = ''staff'')"
    by (auto simp: first_None_iff)
  with None assms show ?thesis by (simp add: delete_staff_def)
next
  case (Some staff)
  from first_SomeD [OF Some]
  have "staff \<in> set (users s)" "id_user staff = staff_id" "role staff = ''staff''"
    by auto
  then show ?thesis using assms Some by (auto simp: delete_staff_def)
qed

theorem delete_staff_cascade_witness:
  "delete_staff (serve ex_hash ex_requests) ex_admin 2 =
     (Inr ''Staff deleted successfully'',
      \<lparr>users = [ex_admin], attendance = [], next_user_id = 3, next_attendance_id = 2\<rparr>) \<and>
   delete_staff (serve ex_hash ex_requests) ex_admin 1 =
     (Inl (HTTPException 404 ''Staff not found''), serve ex_hash ex_requests) \<and>
   delete_staff (serve ex_hash ex_requests) ex_admin 7 =
     (Inl (HTTPException 404 ''Staff not found''), serve ex_hash ex_requests)"
proof -
  have a: "role ex_admin = ''admin''"
    by (simp add: ex_admin_def)
  show ?thesis
    using delete_staff_cascade [OF a, of "serve ex_hash ex_requests" 2]
      delete_staff_cascade [OF a, of "serve ex_hash ex_requests" 1]
      delete_staff_cascade [OF a, of "serve ex_hash ex_requests" 7]
    by (simp add: ex_serve ex_admin_def ex_staff_def)
qed

subsection \<open>Float arithmetic\<close>

lemma pow2_powi: "pow2 k = 2 powi k"
  by (simp add: pow2_def power_int_def field_simps)

lemma pow2_pos: "0 < pow2 k"
  by (simp add: pow2_powi)

lemma bit_length_bounds:
  "0 < n \<Longrightarrow> 1 \<le> bit_length n \<and> (2::int) ^ nat (bit_length n - 1) \<le> n \<and> n < 2 ^ nat (bit_length n)"
proof (induction n rule: bit_length.induct)
  case (1 n)
  show ?case
  proof (cases "n div 2 \<le> 0")
    case True
    with "1.prems" have "n = 1" by linarith
    then show ?thesis by (simp add: bit_length.simps [of 1] bit_length.simps [of 0])
  next
    case False
    then have pos: "0 < n div 2" by simp
    from "1.prems" have nz: "\<not> n \<le> 0" by simp
    from "1.IH" [OF nz pos] have ih: "1 \<le> bit_length (n div 2)"
      "(2::int) ^ nat (bit_length (n div 2) - 1) \<le> n div 2"
      "n div 2 < 2 ^ nat (bit_length (n div 2))" by auto
    have bl: "bit_length n = bit_length (n div 2) + 1"
      using nz bit_length.simps [of n] by simp
    from ih(1) have e1: "nat (bit_length n - 1) = Suc (nat (bit_length (n div 2) - 1))"
      unfolding bl by simp
    from ih(1) have e2: "nat (bit_length n) = Suc (nat (bit_length (n div 2)))"
      unfolding bl by simp
    have p1: "(2::int) ^ nat (bit_length n - 1) = 2 * 2 ^ nat (bit_length (n div 2) - 1)"
      by (simp only: e1 power_Suc)
    have p2: "(2::int) ^ nat (bit_length n) = 2 * 2 ^ nat (bit_length (n div 2))"
      by (simp only: e2 power_Suc)
    from ih(2) have "2 * 2 ^ nat (bit_length (n div 2) - 1) \<le> n" by linarith
    then have g1: "(2::int) ^ nat (bit_length n - 1) \<le> n" by (simp only: p1)
    from ih(3) have "n < 2 * 2 ^ nat (bit_length (n div 2))" by linarith
    then have g2: "n < 2 ^ nat (bit_length n)" by (simp only: p2)
    from ih(1) bl have g0: "1 \<le> bit_length n" by simp
    from g0 g1 g2 show ?thesis by blast
  qed
qed

lemma round_half_even_error: "\<bar>of_int (round_half_even x) - x\<bar> \<le> 1 / 2"
proof -
  define d where "d = x - of_int \<lfloor>x\<rfloor>"
  have d: "0 \<le> d" "d < 1" unfolding d_def by linarith+
  have r: "round_half_even x =
      (if d < 1 / 2 then \<lfloor>x\<rfloor> else if 1 / 2 < d then \<lfloor>x\<rfloor> + 1
       else if even \<lfloor>x\<rfloor> then \<lfloor>x\<rfloor> else \<lfloor>x\<rfloor> + 1)"
    by (simp add: round_half_even_def Let_def d_def)
  have x: "x = of_int \<lfloor>x\<rfloor> + d" by (simp add: d_def)
  consider "d < 1 / 2" | "1 / 2 < d" | "d = 1 / 2" by linarith
  then show ?thesis
  proof cases
    case 1
    then have "of_int (round_half_even x) - x = - d" using r x by simp
    with 1 d show ?thesis by simp
  next
    case 2
    then have "of_int (round_half_even x) - x = 1 - d" using r x by simp
    with 2 d show ?thesis by simp
  next
    case 3
    then have "of_int (round_half_even x) - x = - d \<or> of_int (round_half_even x) - x = 1 - d"
      using r x by simp
    with 3 show ?thesis by auto
  qed
qed


lemma round_half_even_nonneg: "0 \<le> x \<Longrightarrow> 0 \<le> round_half_even x"
  by (auto simp: round_half_even_def Let_def)

lemma binary64_pos_eq:
  assumes "0 < x" and "quotient_of x = (n, d)"
  shows "binary64 x =
     of_int (round_half_even (x / pow2 ((if pow2 (bit_length n - bit_length d) \<le> x
        then bit_length n - bit_length d else bit_length n - bit_length d - 1) - 52)))
     * pow2 ((if pow2 (bit_length n - bit_length d) \<le> x
        then bit_length n - bit_length d else bit_length n - bit_length d - 1) - 52)"
  using assms by (simp add: binary64_def Let_def)


lemma two_powi_diff: "(2::rat) powi (a - b) = 2 powi a / 2 powi b"
  by (rule power_int_diff) simp

lemma quotient_lower_bound:
  assumes npos: "0 < n" and dpos: "0 < d"
  shows "pow2 (bit_length n - bit_length d - 1) \<le> of_int n / of_int d"
proof -
  from bit_length_bounds [OF npos] have n1: "1 \<le> bit_length n"
    and n2: "(2::int) ^ nat (bit_length n - 1) \<le> n" by auto
  from bit_length_bounds [OF dpos] have d1: "1 \<le> bit_length d"
    and d2: "d < 2 ^ nat (bit_length d)" by auto
  from n2 have "rat_of_int (2 ^ nat (bit_length n - 1)) \<le> of_int n"
    by (simp only: of_int_le_iff)
  then have n3: "(2::rat) ^ nat (bit_length n - 1) \<le> of_int n"
    by simp
  from d2 have "rat_of_int d \<le> of_int (2 ^ nat (bit_length d))"
    by (simp only: of_int_le_iff)
  then have d3: "of_int d \<le> (2::rat) ^ nat (bit_length d)"
    by simp
  have n4: "(2::rat) powi (bit_length n - 1) = 2 ^ nat (bit_length n - 1)"
    using n1 by (simp add: power_int_def)
  have d4: "(2::rat) powi (bit_length d) = 2 ^ nat (bit_length d)"
    using d1 by (simp add: power_int_def)
  have "bit_length n - bit_length d - 1 = (bit_length n - 1) - bit_length d"
    by simp
  then have "pow2 (bit_length n - bit_length d - 1) =
      2 powi (bit_length n - 1) / 2 powi (bit_length d)"
    by (simp only: pow2_powi two_powi_diff)
  also have "\<dots> = 2 ^ nat (bit_length n - 1) / 2 ^ nat (bit_length d)"
    by (simp only: n4 d4)
  also have "\<dots> \<le> of_int n / 2 ^ nat (bit_length d)"
    using n3 by (rule divide_right_mono) simp
  also have "\<dots> \<le> of_int n / of_int d"
  proof (rule divide_left_mono [OF d3])
    show "0 \<le> rat_of_int n" using npos by simp
    show "0 < (2::rat) ^ nat (bit_length d) * of_int d" using dpos by simp
  qed
  finally show ?thesis .
qed

lemma binary64_error:
  assumes "0 \<le> x"
  shows "\<bar>binary64 x - x\<bar> \<le> x / 2 ^ 53"
proof (cases "x = 0")
  case True
  then show ?thesis by (simp add: binary64_def)
next
  case False
  with assms have xpos: "0 < x" by simp
  obtain n d where q: "quotient_of x = (n, d)" by (cases "quotient_of x")
  then have xq: "x = of_int n / of_int d" by (rule quotient_of_div)
  from q have dpos: "0 < d" by (rule quotient_of_denom_pos)
  from xpos xq dpos have npos: "0 < n"
    by (simp add: zero_less_divide_iff)
  define k where "k = bit_length n - bit_length d"
  define e where "e = (if pow2 k \<le> x then k else k - 1)"
  define ulp where "ulp = pow2 (e - 52)"
  have b: "binary64 x = of_int (round_half_even (x / ulp)) * ulp"
    unfolding ulp_def e_def k_def by (rule binary64_pos_eq [OF xpos q])
  have upos: "0 < ulp" by (simp add: ulp_def pow2_pos)
  have "pow2 (k - 1) \<le> x"
    unfolding k_def xq by (rule quotient_lower_bound [OF npos dpos])
  then have ex: "pow2 e \<le> x"
    by (simp add: e_def)
  have "binary64 x - x = (of_int (round_half_even (x / ulp)) - x / ulp) * ulp"
    using upos by (simp add: b left_diff_distrib)
  then have "\<bar>binary64 x - x\<bar> = \<bar>of_int (round_half_even (x / ulp)) - x / ulp\<bar> * ulp"
    using upos by (simp add: abs_mult)
  also have "\<dots> \<le> (1 / 2) * ulp"
    using upos by (intro mult_right_mono round_half_even_error) simp
  also have "\<dots> = pow2 e / 2 ^ 53"
  proof -
    have "ulp = 2 powi e / 2 powi 52"
      by (simp only: ulp_def pow2_powi two_powi_diff)
    then show ?thesis by (simp add: pow2_powi)
  qed
  also have "\<dots> \<le> x / 2 ^ 53"
    using ex by (rule divide_right_mono) simp
  finally show ?thesis .
qed

lemma binary64_nonneg: "0 \<le> x \<Longrightarrow> 0 \<le> binary64 x"
proof -
  assume x: "0 \<le> x"
  have "x / 2 ^ 53 \<le> x" using x by (simp add: field_simps)
  with binary64_error [OF x] show ?thesis by linarith
qed


lemma percentage_accuracy:
  assumes "0 \<le> a" and "a \<le> t" and "0 < t"
  shows "\<bar>round2 (float_mul (binary64 (of_int a / of_int t)) 100) - of_int a / of_int t * 100\<bar>
           \<le> 1 / 200 + 1 / 10 ^ 12"
proof -
  define q0 :: rat where "q0 = of_int a / of_int t"
  define q where "q = binary64 q0"
  define y where "y = binary64 (q * 100)"
  define r :: rat where "r = of_int (round_half_even (y * 100)) / 100"
  define z where "z = binary64 r"
  define u :: rat where "u = 1 / 2 ^ 53"
  have u: "0 < u" "u \<le> 1 / 1000000000000000"
    by (simp_all add: u_def)
  have err: "\<bar>binary64 x - x\<bar> \<le> x * u" if "0 \<le> x" for x
    using binary64_error [OF that] by (simp add: u_def)
  have q0: "0 \<le> q0" "q0 \<le> 1"
    using assms by (simp_all add: q0_def)
  have eq: "\<bar>q - q0\<bar> \<le> q0 * u"
    unfolding q_def by (rule err [OF q0(1)])
  have "q0 * u \<le> 1 * u"
    using q0(2) u(1) by (intro mult_right_mono) simp_all
  with eq have b1: "\<bar>q - q0\<bar> \<le> u" by simp
  have q: "0 \<le> q"
    unfolding q_def by (rule binary64_nonneg [OF q0(1)])
  from b1 q0 u have q2: "q \<le> 2" by linarith
  from q have q100: "0 \<le> q * 100" by simp
  have ey: "\<bar>y - q * 100\<bar> \<le> q * 100 * u"
    unfolding y_def by (rule err [OF q100])
  have "q * 100 * u \<le> 200 * u"
    using q2 u(1) by (intro mult_right_mono) simp_all
  with ey have b2: "\<bar>y - q * 100\<bar> \<le> 200 * u" by simp
  have y: "0 \<le> y"
    unfolding y_def by (rule binary64_nonneg [OF q100])
  from b2 q2 u have y2: "y \<le> 201" by linarith
  from y have "0 \<le> round_half_even (y * 100)"
    by (intro round_half_even_nonneg) simp
  then have r: "0 \<le> r" by (simp add: r_def)
  have "r - y = (of_int (round_half_even (y * 100)) - y * 100) / 100"
    by (simp add: r_def diff_divide_distrib)
  then have "\<bar>r - y\<bar> = \<bar>(of_int (round_half_even (y * 100)) - y * 100) / 100\<bar>"
    by (rule arg_cong)
  also have "\<dots> = \<bar>of_int (round_half_even (y * 100)) - y * 100\<bar> / 100"
    by (simp only: abs_divide)
  also have "\<dots> \<le> (1 / 2) / 100"
    by (intro divide_right_mono round_half_even_error) simp
  finally have er: "\<bar>r - y\<bar> \<le> 1 / 200" by simp
  from er y2 have r2: "r \<le> 202" by linarith
  have ez: "\<bar>z - r\<bar> \<le> r * u"
    unfolding z_def by (rule err [OF r])
  have "r * u \<le> 202 * u"
    using r2 u(1) by (intro mult_right_mono) simp_all
  with ez have b3: "\<bar>z - r\<bar> \<le> 202 * u" by simp
  from b1 b2 b3 er u have "\<bar>z - q0 * 100\<bar> \<le> 1 / 200 + 1 / 1000000000000" by linarith
  then show ?thesis
    by (simp add: z_def r_def y_def q_def q0_def round2_def float_mul_def)
qed

subsection \<open>Attendance percentage\<close>

lemma binary64_1: "binary64 1 = 1"
  by code_simp

lemma binary64_100: "binary64 100 = 100"
  by code_simp

lemma round_half_even_10000: "round_half_even 10000 = 10000"
  by code_simp

lemma percentage_full:
  assumes "0 < t"
  shows "round2 (float_mul (binary64 (of_int t / of_int t)) 100) = 100"
proof -
  from assms have "(of_int t :: rat) / of_int t = 1" by simp
  then show ?thesis
    by (simp add: round2_def float_mul_def binary64_1 binary64_100 round_half_even_10000)
qed

lemma staff_row_eq:
  "staff_row s user =
     Inr (let records = filter (\<lambda>r. user_id r = id_user user) (attendance s);
              present = int (length (filter (\<lambda>r. status r = ''Present'') records));
              late = int (length (filter (\<lambda>r. status r = ''Late'') records));
              total = int (length records)
          in \<lparr>row_full_name = full_name user, present_days = present, late_days = late,
              percentage =
                (if total = 0 then PyInt 0
                 else PyFloat (round2 (float_mul (binary64 (of_int (present + late) / of_int total)) 100)))\<rparr>)"
  by (auto simp: staff_row_def Let_def truediv_def filter_empty_conv)

lemma staff_rows_map:
  assumes "\<And>u. staff_row s u = Inr (f u)"
  shows "staff_rows s us results = Inr (results @ map f us)"
  by (induction us arbitrary: results) (simp_all add: assms)

lemma attendance_percentage_eq:
  assumes "role current_user = ''admin''"
  shows "attendance_percentage s current_user =
     Inr (map (\<lambda>u. let records = filter (\<lambda>r. user_id r = id_user u) (attendance s);
                      present = int (length (filter (\<lambda>r. status r = ''Present'') records));
                      late = int (length (filter (\<lambda>r. status r = ''Late'') records));
                      total = int (length records)
                  in \<lparr>row_full_name = full_name u, present_days = present, late_days = late,
                      percentage =
                        (if total = 0 then PyInt 0
                         else PyFloat (round2 (float_mul
                                (binary64 (of_int (present + late) / of_int total)) 100)))\<rparr>)
            (filter (\<lambda>u. role u = ''staff'') (users s)))"
  using assms staff_rows_map [of s _ "filter (\<lambda>u. role u = ''staff'') (users s)" "[]", OF staff_row_eq]
  by (simp add: attendance_percentage_def)

lemma present_late_le_total:
  "length (filter (\<lambda>r. status r = ''Present'') rs) + length (filter (\<lambda>r. status r = ''Late'') rs)
     \<le> length rs"
  by (induction rs) auto

lemma present_late_eq_total:
  assumes "\<forall>r \<in> set rs. status r = ''Present'' \<or> status r = ''Late''"
  shows "length (filter (\<lambda>r. status r = ''Present'') rs) + length (filter (\<lambda>r. status r = ''Late'') rs)
     = length rs"
  using assms by (induction rs) auto

lemma percentage_two_thirds:
  "round2 (float_mul (binary64 (2 / 3)) 100) = 4691484174324859 / 70368744177664"
  by code_simp

text \<open>
  C7. For an admin caller attendance_percentage returns, without raising, one row for
  each staff user with the numbers of the user's Present and Late records; the
  percentage is 0 when the user has no record, and otherwise
  \<^verbatim>\<open>round((present + late) / total * 100, 2)\<close> in binary64 arithmetic, which lies
  within 0.005 + 10^-12 of the exact quotient times 100 (present + late never exceeds
  total).
\<close>

theorem attendance_percentage_formula:
  assumes "role current_user = ''admin''"
  shows "attendance_percentage s current_user =
     Inr (map (\<lambda>u. let records = filter (\<lambda>r. user_id r = id_user u) (attendance s);
                      present = int (length (filter (\<lambda>r. status r = ''Present'') records));
                      late = int (length (filter (\<lambda>r. status r = ''Late'') records));
                      total = int (length records)
                  in \<lparr>row_full_name = full_name u, present_days = present, late_days = late,
                      percentage =
                        (if total = 0 then PyInt 0
                         else PyFloat (round2 (float_mul
                                (binary64 (of_int (present + late) / of_int total)) 100)))\<rparr>)
            (filter (\<lambda>u. role u = ''staff'') (users s))) \<and>
   (\<forall>a t. 0 \<le> a \<and> a \<le> t \<and> 0 < t \<longrightarrow>
      \<bar>round2 (float_mul (binary64 (of_int a / of_int t)) 100) - of_int a / of_int t * 100\<bar>
        \<le> 1 / 200 + 1 / 10 ^ 12) \<and>
   (\<forall>rs :: Attendance list. int (length (filter (\<lambda>r. status r = ''Present'') rs))
           + int (length (filter (\<lambda>r. status r = ''Late'') rs)) \<le> int (length rs))"
proof -
  have 1: "attendance_percentage s current_user =
     Inr (map (\<lambda>u. let records = filter (\<lambda>r. user_id r = id_user u) (attendance s);
                      present = int (length (filter (\<lambda>r. status r = ''Present'') records));
                      late = int (length (filter (\<lambda>r. status r = ''Late'') records));
                      total = int (length records)
                  in \<lparr>row_full_name = full_name u, present_days = present, late_days = late,
                      percentage =
                        (if total = 0 then PyInt 0
                         else PyFloat (round2 (float_mul
                                (binary64 (of_int (present + late) / of_int total)) 100)))\<rparr>)
            (filter (\<lambda>u. role u = ''staff'') (users s)))"
    by (rule attendance_percentage_eq [OF assms])
  have 2: "\<forall>a t. 0 \<le> a \<and> a \<le> t \<and> 0 < t \<longrightarrow>
      \<bar>round2 (float_mul (binary64 (of_int a / of_int t)) 100) - of_int a / of_int t * 100\<bar>
        \<le> 1 / 200 + 1 / 10 ^ 12"
    using percentage_accuracy by blast
  have 3: "\<forall>rs :: Attendance list. int (length (filter (\<lambda>r. status r = ''Present'') rs))
           + int (length (filter (\<lambda>r. status r = ''Late'') rs)) \<le> int (length rs)"
  proof
    fix rs :: "Attendance list"
    show "int (length (filter (\<lambda>r. status r = ''Present'') rs))
           + int (length (filter (\<lambda>r. status r = ''Late'') rs)) \<le> int (length rs)"
      using present_late_le_total [of rs] by linarith
  qed
  from 1 2 3 show ?thesis by (intro conjI)
qed

theorem attendance_percentage_formula_witness:
  "attendance_percentage ex_db_term ex_admin =
     Inr [\<lparr>row_full_name = ''Ama Mensah'', present_days = 1, late_days = 1,
           percentage = PyFloat (4691484174324859 / 70368744177664)\<rparr>,
          \<lparr>row_full_name = ''Kofi Boateng'', present_days = 0, late_days = 0,
           percentage = PyInt 0\<rparr>] \<and>
   \<bar>(4691484174324859 / 70368744177664 :: rat) - 2 / 3 * 100\<bar> \<le> 1 / 200 + 1 / 10 ^ 12"
proof -
  have a: "role ex_admin = ''admin''"
    by (simp add: ex_admin_def)
  have b: "(0::int) \<le> 2 \<and> (2::int) \<le> 3 \<and> (0::int) < 3"
    by simp
  from attendance_percentage_formula [OF a, of ex_db_term, THEN conjunct1]
  have 1: "attendance_percentage ex_db_term ex_admin =
     Inr [\<lparr>row_full_name = ''Ama Mensah'', present_days = 1, late_days = 1,
           percentage = PyFloat (4691484174324859 / 70368744177664)\<rparr>,
          \<lparr>row_full_name = ''Kofi Boateng'', present_days = 0, late_days = 0,
           percentage = PyInt 0\<rparr>]"
    by (simp add: ex_db_term_def ex_admin_def ex_staff_def ex_staff2_def percentage_two_thirds)
  from attendance_percentage_formula [OF a, of ex_db_term, THEN conjunct2, THEN conjunct1] b
  have "\<bar>round2 (float_mul (binary64 (of_int 2 / of_int 3)) 100) - of_int 2 / of_int 3 * 100\<bar>
        \<le> 1 / 200 + 1 / 10 ^ 12"
    by blast
  then have 2: "\<bar>(4691484174324859 / 70368744177664 :: rat) - 2 / 3 * 100\<bar> \<le> 1 / 200 + 1 / 10 ^ 12"
    by (simp only: of_int_numeral percentage_two_thirds)
  from 1 2 show ?thesis by blast
qed

text \<open>
  C10. For an admin caller and every staff user whose attendance records all have
  status Present or Late, the user's row has percentage exactly 100.0 when the user
  has a record and 0 when the user has none: never a value strictly between.
\<close>

theorem percentage_is_0_or_100:
  assumes "role current_user = ''admin''"
  shows "\<exists>rows. attendance_percentage s current_user = Inr rows \<and>
     length rows = length (filter (\<lambda>u. role u = ''staff'') (users s)) \<and>
     (\<forall>i < length rows.
        (\<forall>r \<in> set (attendance s).
           user_id r = id_user (filter (\<lambda>u. role u = ''staff'') (users s) ! i) \<longrightarrow>
           status r = ''Present'' \<or> status r = ''Late'') \<longrightarrow>
        percentage (rows ! i) =
          (if \<exists>r \<in> set (attendance s).
                user_id r = id_user (filter (\<lambda>u. role u = ''staff'') (users s) ! i)
           then PyFloat 100 else PyInt 0))"
proof -
  let ?staff = "filter (\<lambda>u. role u = ''staff'') (users s)"
  let ?f = "\<lambda>u. let records = filter (\<lambda>r. user_id r = id_user u) (attendance s);
                      present = int (length (filter (\<lambda>r. status r = ''Present'') records));
                      late = int (length (filter (\<lambda>r. status r = ''Late'') records));
                      total = int (length records)
                  in \<lparr>row_full_name = full_name u, present_days = present, late_days = late,
                      percentage =
                        (if total = 0 then PyInt 0
                         else PyFloat (round2 (float_mul
                                (binary64 (of_int (present + late) / of_int total)) 100)))\<rparr>"
  have eq: "attendance_percentage s current_user = Inr (map ?f ?staff)"
    by (rule attendance_percentage_eq [OF assms])
  have "percentage (map ?f ?staff ! i) =
          (if \<exists>r \<in> set (attendance s). user_id r = id_user (?staff ! i)
           then PyFloat 100 else PyInt 0)"
    if i: "i < length (map ?f ?staff)"
      and ok: "\<forall>r \<in> set (attendance s). user_id r = id_user (?staff ! i) \<longrightarrow>
           status r = ''Present'' \<or> status r = ''Late''"
    for i
  proof -
    let ?u = "?staff ! i"
    let ?records = "filter (\<lambda>r. user_id r = id_user ?u) (attendance s)"
    from i have nth: "map ?f ?staff ! i = ?f ?u" by simp
    from ok have "\<forall>r \<in> set ?records. status r = ''Present'' \<or> status r = ''Late''"
      by simp
    then have tot: "length (filter (\<lambda>r. status r = ''Present'') ?records)
        + length (filter (\<lambda>r. status r = ''Late'') ?records) = length ?records"
      by (rule present_late_eq_total)
    show ?thesis
    proof (cases "?records = []")
      case True
      then have "\<not> (\<exists>r \<in> set (attendance s). user_id r = id_user ?u)"
        by (simp add: filter_empty_conv)
      with True show ?thesis unfolding nth by (simp add: Let_def)
    next
      case False
      then have ex: "\<exists>r \<in> set (attendance s). user_id r = id_user ?u"
        by (simp add: filter_empty_conv)
      from False have pos: "0 < int (length ?records)" by simp
      have sum: "int (length (filter (\<lambda>r. status r = ''Present'') ?records))
          + int (length (filter (\<lambda>r. status r = ''Late'') ?records)) = int (length ?records)"
        using tot by linarith
      have "percentage (?f ?u) = PyFloat (round2 (float_mul
          (binary64 (of_int (int (length ?records)) / of_int (int (length ?records)))) 100))"
        using False sum by (simp add: Let_def)
      also have "\<dots> = PyFloat 100"
        by (simp only: percentage_full [OF pos])
      finally show ?thesis using ex unfolding nth by simp
    qed
  qed
  with eq show ?thesis by (intro exI [of _ "map ?f ?staff"]) simp
qed

theorem percentage_is_0_or_100_witness:
  "attendance_percentage (serve ex_hash ex_requests) ex_admin =
     Inr [\<lparr>row_full_name = ''Ama Mensah'', present_days = 1, late_days = 0,
           percentage = PyFloat 100\<rparr>] \<and>
   attendance_percentage ex_db ex_admin =
     Inr [\<lparr>row_full_name = ''Ama Mensah'', present_days = 0, late_days = 0,
           percentage = PyInt 0\<rparr>]"
proof -
  have a: "role ex_admin = ''admin''"
    by (simp add: ex_admin_def)
  have "round2 (float_mul (binary64 1) 100) = 100"
    using percentage_full [of 1] by simp
  then have 1: "attendance_percentage (serve ex_hash ex_requests) ex_admin =
     Inr [\<lparr>row_full_name = ''Ama Mensah'', present_days = 1, late_days = 0,
           percentage = PyFloat 100\<rparr>]"
    using attendance_percentage_eq [OF a, of "serve ex_hash ex_requests"]
    by (simp add: ex_serve ex_admin_def ex_staff_def)
  have 2: "attendance_percentage ex_db ex_admin =
     Inr [\<lparr>row_full_name = ''Ama Mensah'', present_days = 0, late_days = 0,
           percentage = PyInt 0\<rparr>]"
    using attendance_percentage_eq [OF a, of ex_db]
    by (simp add: ex_db_def ex_admin_def ex_staff_def)
  from percentage_is_0_or_100 [OF a, of "serve ex_hash ex_requests"] 1 2
  show ?thesis by blast
qed

end
